theory Spec2Isabelle
  imports Main "HOL-Library.Word"
begin

section \<open>The WebAssembly representation of tools/optimizer/wasm.h\<close>

text \<open>
  The header declares the value types, the literals, the operator enumerations, the
  expression classes with their \<open>print\<close> members, and the children-first walker.
  The embedding follows it class by class.

  \<^item> A class with \<open>Expression*\<close> children is a constructor of the datatype
    \<open>Expression\<close>. Every constructor carries the inherited field \<open>type\<close> first.
    A child pointer that the printer tests before use (\<open>If::ifFalse\<close>,
    \<open>Break::condition\<close>, \<open>Break::value\<close>) is an \<open>option\<close>, \<open>None\<close> being the null
    pointer; the other child pointers are dereferenced unconditionally by the printer and
    are modelled as present.
  \<^item> The nodes of one function form a tree: no node is shared, so the walker's
    assignments \<open>cast->child = walk(cast->child)\<close> rebuild the node from the walked
    children.
  \<^item> \<open>std::ostream\<close> is written only: every printing function returns the text it
    appends. \<open>abort()\<close> and a failing \<open>assert\<close> end the process; they are the values
    \<open>Inl Abort\<close> and \<open>Inl AssertionFailed\<close> (assertions are compiled in).
  \<^item> \<open>colors.h\<close> and \<open>JSPrinter::numToString\<close> are not part of the header. The text
    each colour function writes and the text \<open>numToString\<close> returns are parameters,
    collected in the record \<open>Env\<close>.
\<close>

subsection \<open>Failures and output\<close>

datatype error = Abort | AssertionFailed | PureVirtualCall

text \<open>
  \<open>seqOut\<close> runs output statements in order: the text of all of them, or the first
  failure.
\<close>

fun seqOut :: "(error + string) list \<Rightarrow> error + string" where
  "seqOut [] = Inr []"
| "seqOut (Inl e # rest) = Inl e"
| "seqOut (Inr s # rest) = (case seqOut rest of Inl e \<Rightarrow> Inl e | Inr t \<Rightarrow> Inr (s @ t))"

text \<open>Decimal output of \<open>operator<<\<close> for the integer types.\<close>

definition digitChar :: "nat \<Rightarrow> char" where
  "digitChar d = ''0123456789'' ! d"

fun showNat :: "nat \<Rightarrow> string" where
  "showNat n = (if n < 10 then [digitChar n] else showNat (n div 10) @ [digitChar (n mod 10)])"

declare showNat.simps [simp del]

definition showInt :: "int \<Rightarrow> string" where
  "showInt i = (if i < 0 then ''-'' @ showNat (nat (- i)) else showNat (nat i))"

text \<open>Reading a decimal numeral back, to state that \<open>showNat\<close> is the decimal notation.\<close>

definition digitValue :: "char \<Rightarrow> nat" where
  "digitValue c = of_char c - 48"

definition decimalValue :: "string \<Rightarrow> nat" where
  "decimalValue s = foldl (\<lambda>acc c. 10 * acc + digitValue c) 0 s"

text \<open>The parameters: the colour escapes and the number formatter.\<close>

type_synonym float32 = "32 word"
type_synonym float64 = "64 word"

record Env =
  Colors_red :: string
  Colors_bold :: string
  Colors_magenta :: string
  Colors_orange :: string
  Colors_green :: string
  Colors_normal :: string
  floatToDouble :: "float32 \<Rightarrow> float64"
  JSPrinter_numToString :: "float64 \<Rightarrow> string"

definition doIndent :: "32 word \<Rightarrow> string" where
  "doIndent indent = concat (replicate (unat indent) ''  '')"

definition incIndent :: "32 word \<Rightarrow> string \<times> 32 word" where
  "incIndent indent = (''\<newline>'', indent + 1)"

definition decIndent :: "32 word \<Rightarrow> string \<times> 32 word" where
  "decIndent indent = (doIndent (indent - 1) @ '')'', indent - 1)"

subsection \<open>Basics\<close>

text \<open>A \<open>Name\<close> is an interned string that may be unset (\<open>str\<close> null).\<close>

type_synonym Name = "string option"

definition Name_is :: "Name \<Rightarrow> bool" where
  "Name_is name = (name \<noteq> None)"

definition printName :: "Name \<Rightarrow> error + string" where
  "printName name = (case name of None \<Rightarrow> Inl AssertionFailed | Some str \<Rightarrow> Inr (''$'' @ str))"

subsection \<open>Types\<close>

datatype WasmType = none | i32 | i64 | f32 | f64

fun printWasmType :: "WasmType \<Rightarrow> string" where
  "printWasmType none = ''none''"
| "printWasmType i32 = ''i32''"
| "printWasmType i64 = ''i64''"
| "printWasmType f32 = ''f32''"
| "printWasmType f64 = ''f64''"

fun getWasmTypeSize :: "WasmType \<Rightarrow> error + 32 word" where
  "getWasmTypeSize none = Inl Abort"
| "getWasmTypeSize i32 = Inr 4"
| "getWasmTypeSize i64 = Inr 8"
| "getWasmTypeSize f32 = Inr 4"
| "getWasmTypeSize f64 = Inr 8"

fun isFloat :: "WasmType \<Rightarrow> bool" where
  "isFloat f32 = True"
| "isFloat f64 = True"
| "isFloat t = False"

definition getWasmType :: "32 word \<Rightarrow> bool \<Rightarrow> error + WasmType" where
  "getWasmType sz float' =
     (if sz < 4 then Inr i32
      else if sz = 4 then (if float' then Inr f32 else Inr i32)
      else if sz = 8 then (if float' then Inr f64 else Inr i64)
      else Inl Abort)"

definition prepareMajorColor :: "Env \<Rightarrow> string" where
  "prepareMajorColor env = Colors_red env @ Colors_bold env"

definition prepareColor :: "Env \<Rightarrow> string" where
  "prepareColor env = Colors_magenta env @ Colors_bold env"

definition prepareMinorColor :: "Env \<Rightarrow> string" where
  "prepareMinorColor env = Colors_orange env"

definition restoreNormalColor :: "Env \<Rightarrow> string" where
  "restoreNormalColor env = Colors_normal env"

subsection \<open>Literals\<close>

text \<open>
  A \<open>Literal\<close> is a type tag and a union of the four payloads; each constructor of the
  class sets the tag of the payload it stores, and the default constructor sets \<open>none\<close>.
  Floating-point payloads are kept as their bit patterns.
\<close>

datatype Literal =
    Literal_none
  | Literal_i32 "32 word"
  | Literal_i64 "64 word"
  | Literal_f32 float32
  | Literal_f64 float64

definition Literal_default :: Literal where
  "Literal_default = Literal_none"

fun Literal_type :: "Literal \<Rightarrow> WasmType" where
  "Literal_type Literal_none = none"
| "Literal_type (Literal_i32 x) = i32"
| "Literal_type (Literal_i64 x) = i64"
| "Literal_type (Literal_f32 x) = f32"
| "Literal_type (Literal_f64 x) = f64"

text \<open>
  \<open>text[k]\<close> on the C string \<open>numToString\<close> returns: the character, or the terminating
  NUL at the end.
\<close>

definition cstrAt :: "string \<Rightarrow> nat \<Rightarrow> char" where
  "cstrAt s k = (if k < length s then s ! k else CHR 0x00)"

definition printDouble :: "Env \<Rightarrow> float64 \<Rightarrow> string" where
  "printDouble env d =
     (let text = JSPrinter_numToString env d in
      if cstrAt text 0 = CHR ''.'' then ''0'' @ text
      else if cstrAt text 0 = CHR ''-'' \<and> cstrAt text 1 = CHR ''.'' then ''-0'' @ drop 1 text
      else text)"

definition printLiteral :: "Env \<Rightarrow> Literal \<Rightarrow> error + string" where
  "printLiteral env literal =
     seqOut
       [Inr ''('',
        Inr (prepareMinorColor env @ printWasmType (Literal_type literal) @ ''.const ''),
        (case literal of
           Literal_none \<Rightarrow> Inl Abort
         | Literal_i32 x \<Rightarrow> Inr (showInt (sint x))
         | Literal_i64 x \<Rightarrow> Inr (showInt (sint x))
         | Literal_f32 x \<Rightarrow> Inr (printDouble env (floatToDouble env x))
         | Literal_f64 x \<Rightarrow> Inr (printDouble env x)),
        Inr (restoreNormalColor env),
        Inr '')'']"

subsection \<open>Operators\<close>

datatype UnaryOp =
    Clz | Ctz | Popcnt
  | Neg | Abs | Ceil | Floor | Trunc | Nearest | Sqrt

datatype BinaryOp =
    Add | Sub | Mul
  | DivS | DivU | RemS | RemU | And | Or | Xor | Shl | ShrU | ShrS
  | Div | CopySign | Min_op | Max_op

datatype RelationalOp =
    Eq | Ne
  | LtS | LtU | LeS | LeU | GtS | GtU | GeS | GeU
  | Lt | Le | Gt | Ge

datatype ConvertOp =
    ExtendSInt32 | ExtendUInt32 | WrapInt64 | TruncSFloat32 | TruncUFloat32
  | TruncSFloat64 | TruncUFloat64 | ReinterpretFloat
  | ConvertSInt32 | ConvertUInt32 | ConvertSInt64 | ConvertUInt64
  | PromoteFloat32 | DemoteFloat64 | ReinterpretInt

datatype HostOp = PageSize | MemorySize | GrowMemory | HasFeature

subsection \<open>Expressions\<close>

record FunctionType =
  FunctionType_name :: Name
  FunctionType_result :: WasmType
  FunctionType_params :: "WasmType list"

text \<open>
  The fields of a \<open>Const\<close> node: the inherited \<open>type\<close> and the literal \<open>value\<close>.
  \<open>Const::set\<close> assigns both.
\<close>

record Const =
  Const_type :: WasmType
  Const_value :: Literal

definition Const_set :: "Const \<Rightarrow> Literal \<Rightarrow> Const" where
  "Const_set this value' =
     (let this1 = this\<lparr>Const_value := value'\<rparr>;
          this2 = this1\<lparr>Const_type := Literal_type (Const_value this1)\<rparr>
      in this2)"

text \<open>
  The fields after the inherited \<open>type\<close>, in the order of the class declarations:
  \<open>Block\<close> name, list; \<open>If\<close> condition, ifTrue, ifFalse; \<open>Loop\<close> out, in, body;
  \<open>Label\<close> name; \<open>Break\<close> name, condition, value; \<open>Switch\<close> name, value, cases
  (value, body, fallthru), default; \<open>Call\<close> and \<open>CallImport\<close> target, operands;
  \<open>CallIndirect\<close> function type, target, operands; \<open>GetLocal\<close> id; \<open>SetLocal\<close> id,
  value; \<open>Load\<close> bytes, signed, float, offset, align, ptr; \<open>Store\<close> bytes, float,
  offset, align, ptr, value; \<open>Unary\<close> op, value; \<open>Binary\<close> op, left, right;
  \<open>Compare\<close> op, inputType, left, right; \<open>Convert\<close> op, value; \<open>Host\<close> op, operands.
\<close>

datatype Expression =
    Nop WasmType
  | Block WasmType Name "Expression list"
  | If_expr WasmType Expression Expression "Expression option"
  | Loop WasmType Name Name Expression
  | Label WasmType Name
  | Break WasmType Name "Expression option" "Expression option"
  | Switch WasmType Name Expression "(Literal \<times> Expression \<times> bool) list" Expression
  | Call WasmType Name "Expression list"
  | CallImport WasmType Name "Expression list"
  | CallIndirect WasmType FunctionType Expression "Expression list"
  | GetLocal WasmType Name
  | SetLocal WasmType Name Expression
  | Load WasmType "32 word" bool bool "32 word" "32 word" Expression
  | Store WasmType "32 word" bool "32 word" "32 word" Expression Expression
  | Const_expr Const
  | Unary WasmType UnaryOp Expression
  | Binary WasmType BinaryOp Expression Expression
  | Compare WasmType RelationalOp WasmType Expression Expression
  | Convert WasmType ConvertOp Expression
  | Host WasmType HostOp "Expression list"

text \<open>
  The constructor of \<open>Compare\<close> sets the output type to \<open>i32\<close>; the producer fills in
  the other fields.
\<close>

definition Compare_new :: "RelationalOp \<Rightarrow> WasmType \<Rightarrow> Expression \<Rightarrow> Expression \<Rightarrow> Expression" where
  "Compare_new op inputType left right = Compare i32 op inputType left right"

definition printOpening :: "Env \<Rightarrow> string \<Rightarrow> bool \<Rightarrow> string" where
  "printOpening env str major =
     ''('' @ (if major then prepareMajorColor env else prepareColor env) @ str
       @ restoreNormalColor env"

definition printMinorOpening :: "Env \<Rightarrow> string \<Rightarrow> string" where
  "printMinorOpening env str = ''('' @ prepareMinorColor env @ str @ restoreNormalColor env"

text \<open>
  The \<open>print\<close> members, one equation per class. \<open>printFullLines\<close> is the loop
  \<open>for (auto e : list) printFullLine(o, indent, e)\<close>, \<open>printBody\<close> is \<open>Call::printBody\<close>.
  \<open>Label\<close> and \<open>Host\<close> declare no \<open>print\<close>: the member stays pure virtual.
  \<open>indent\<close> is passed by value to \<open>print\<close> and by reference to \<open>incIndent\<close> and
  \<open>decIndent\<close>, which return the new value here.
\<close>

fun print :: "Env \<Rightarrow> 32 word \<Rightarrow> Expression \<Rightarrow> error + string"
  and printFullLine :: "Env \<Rightarrow> 32 word \<Rightarrow> Expression \<Rightarrow> error + string"
  and printFullLines :: "Env \<Rightarrow> 32 word \<Rightarrow> Expression list \<Rightarrow> error + string"
  and printBody :: "Env \<Rightarrow> 32 word \<Rightarrow> Name \<Rightarrow> Expression list \<Rightarrow> error + string"
where
  "printFullLine env indent expression =
     seqOut [Inr (doIndent indent), print env indent expression, Inr ''\<newline>'']"
| "printFullLines env indent [] = Inr []"
| "printFullLines env indent (expression # rest) =
     seqOut [printFullLine env indent expression, printFullLines env indent rest]"
| "printBody env indent target operands =
     seqOut
       [printName target,
        (if length operands > 0 then
           (let (nl, indent1) = incIndent indent; (cl, indent2) = decIndent indent1 in
            seqOut [Inr nl, printFullLines env indent1 operands, Inr cl])
         else Inr '')'')]"
| "print env indent (Nop ty) = Inr (printMinorOpening env ''nop'' @ '')'')"
| "print env indent (Block ty name list) =
     (let (nl, indent1) = incIndent indent; (cl, indent2) = decIndent indent1 in
      seqOut
        [Inr (printOpening env ''block'' False),
         (if Name_is name then seqOut [Inr '' '', printName name] else Inr []),
         Inr nl,
         printFullLines env indent1 list,
         Inr cl])"
| "print env indent (If_expr ty condition ifTrue ifFalse) =
     (let (nl, indent1) = incIndent indent; (cl, indent2) = decIndent indent1 in
      seqOut
        [Inr (printOpening env ''if'' False),
         Inr nl,
         printFullLine env indent1 condition,
         printFullLine env indent1 ifTrue,
         (case ifFalse of None \<Rightarrow> Inr [] | Some e \<Rightarrow> printFullLine env indent1 e),
         Inr cl])"
| "print env indent (Loop ty out in' body) =
     (let (nl, indent1) = incIndent indent; (cl, indent2) = decIndent indent1 in
      seqOut
        [Inr (printOpening env ''loop'' False),
         (if Name_is out then
            seqOut [Inr '' '', printName out,
                    (if Name_is in' then seqOut [Inr '' '', printName in'] else Inr [])]
          else Inr []),
         Inr nl,
         printFullLine env indent1 body,
         Inr cl])"
| "print env indent (Label ty name) = Inl PureVirtualCall"
| "print env indent (Break ty name condition val) =
     (let (nl, indent1) = incIndent indent; (cl, indent2) = decIndent indent1 in
      seqOut
        [Inr (printOpening env ''break '' False),
         printName name,
         Inr nl,
         (case condition of None \<Rightarrow> Inr [] | Some e \<Rightarrow> printFullLine env indent1 e),
         (case val of None \<Rightarrow> Inr [] | Some e \<Rightarrow> printFullLine env indent1 e),
         Inr cl])"
| "print env indent (Switch ty name val cases default') =
     (let (nl, indent1) = incIndent indent; (cl, indent2) = decIndent indent1 in
      seqOut
        [Inr (printOpening env ''switch '' False),
         printName name,
         Inr nl,
         printFullLine env indent1 val,
         Inr ''TODO: cases/default\<newline>'',
         Inr cl])"
| "print env indent (Call ty target operands) =
     seqOut [Inr (printOpening env ''call '' False), printBody env indent target operands]"
| "print env indent (CallImport ty target operands) =
     seqOut [Inr (printOpening env ''call_import '' False), printBody env indent target operands]"
| "print env indent (CallIndirect ty fty target operands) =
     (let (nl, indent1) = incIndent indent; (cl, indent2) = decIndent indent1 in
      seqOut
        [Inr (printOpening env ''call_indirect '' False),
         printName (FunctionType_name fty),
         Inr nl,
         printFullLine env indent1 target,
         printFullLines env indent1 operands,
         Inr cl])"
| "print env indent (GetLocal ty id') =
     seqOut [Inr (printOpening env ''get_local '' False), printName id', Inr '')'']"
| "print env indent (SetLocal ty id' val) =
     (let (nl, indent1) = incIndent indent; (cl, indent2) = decIndent indent1 in
      seqOut
        [Inr (printOpening env ''set_local '' False),
         printName id',
         Inr nl,
         printFullLine env indent1 val,
         Inr cl])"
| "print env indent (Load ty bytes signed' float' offset align ptr) =
     (let (nl, indent1) = incIndent indent; (cl, indent2) = decIndent indent1 in
      seqOut
        [Inr ''('',
         Inr (prepareColor env),
         (case getWasmType bytes float' of Inl e \<Rightarrow> Inl e | Inr t \<Rightarrow> Inr (printWasmType t)),
         Inr ''.load'',
         (if bytes < 4 then
            seqOut
              [(if bytes = 1 then Inr ''8'' else if bytes = 2 then Inr ''16'' else Inl Abort),
               Inr (if signed' then ''_s'' else ''_u'')]
          else Inr []),
         Inr (restoreNormalColor env),
         Inr ('' align='' @ showNat (unat align)),
         (if offset = 0 then Inr [] else Inl AssertionFailed),
         Inr nl,
         printFullLine env indent1 ptr,
         Inr cl])"
| "print env indent (Store ty bytes float' offset align ptr val) =
     (let (nl, indent1) = incIndent indent; (cl, indent2) = decIndent indent1 in
      seqOut
        [Inr ''('',
         Inr (prepareColor env),
         (case getWasmType bytes float' of Inl e \<Rightarrow> Inl e | Inr t \<Rightarrow> Inr (printWasmType t)),
         Inr ''.store'',
         (if bytes < 4 then
            (if bytes = 1 then Inr ''8'' else if bytes = 2 then Inr ''16'' else Inl Abort)
          else Inr []),
         Inr (restoreNormalColor env),
         Inr ('' align='' @ showNat (unat align)),
         (if offset = 0 then Inr [] else Inl AssertionFailed),
         Inr nl,
         printFullLine env indent1 ptr,
         printFullLine env indent1 val,
         Inr cl])"
| "print env indent (Const_expr c) = printLiteral env (Const_value c)"
| "print env indent (Unary ty op val) =
     (let (nl, indent1) = incIndent indent; (cl, indent2) = decIndent indent1 in
      seqOut
        [Inr ''('',
         Inr (prepareColor env @ printWasmType ty @ ''.''),
         (case op of
            Clz \<Rightarrow> Inr ''clz''
          | Neg \<Rightarrow> Inr ''neg''
          | Floor \<Rightarrow> Inr ''floor''
          | _ \<Rightarrow> Inl Abort),
         Inr nl,
         printFullLine env indent1 val,
         Inr cl])"
| "print env indent (Binary ty op left right) =
     (let (nl, indent1) = incIndent indent; (cl, indent2) = decIndent indent1 in
      seqOut
        [Inr ''('',
         Inr (prepareColor env @ printWasmType ty @ ''.''),
         Inr (case op of
            Add \<Rightarrow> ''add''
          | Sub \<Rightarrow> ''sub''
          | Mul \<Rightarrow> ''mul''
          | DivS \<Rightarrow> ''div_s''
          | DivU \<Rightarrow> ''div_u''
          | RemS \<Rightarrow> ''rem_s''
          | RemU \<Rightarrow> ''rem_u''
          | And \<Rightarrow> ''and''
          | Or \<Rightarrow> ''or''
          | Xor \<Rightarrow> ''xor''
          | Shl \<Rightarrow> ''shl''
          | ShrU \<Rightarrow> ''shr_u''
          | ShrS \<Rightarrow> ''shr_s''
          | Div \<Rightarrow> ''div''
          | CopySign \<Rightarrow> ''copysign''
          | Min_op \<Rightarrow> ''min''
          | Max_op \<Rightarrow> ''max''),
         Inr (restoreNormalColor env),
         Inr nl,
         printFullLine env indent1 left,
         printFullLine env indent1 right,
         Inr cl])"
| "print env indent (Compare ty op inputType left right) =
     (let (nl, indent1) = incIndent indent; (cl, indent2) = decIndent indent1 in
      seqOut
        [Inr ''('',
         Inr (prepareColor env @ printWasmType inputType @ ''.''),
         Inr (case op of
            Eq \<Rightarrow> ''eq''
          | Ne \<Rightarrow> ''ne''
          | LtS \<Rightarrow> ''lt_s''
          | LtU \<Rightarrow> ''lt_u''
          | LeS \<Rightarrow> ''le_s''
          | LeU \<Rightarrow> ''le_u''
          | GtS \<Rightarrow> ''gt_s''
          | GtU \<Rightarrow> ''gt_u''
          | GeS \<Rightarrow> ''ge_s''
          | GeU \<Rightarrow> ''ge_u''
          | Lt \<Rightarrow> ''lt''
          | Le \<Rightarrow> ''le''
          | Gt \<Rightarrow> ''gt''
          | Ge \<Rightarrow> ''ge''),
         Inr (restoreNormalColor env),
         Inr nl,
         printFullLine env indent1 left,
         printFullLine env indent1 right,
         Inr cl])"
| "print env indent (Convert ty op val) =
     (let (nl, indent1) = incIndent indent; (cl, indent2) = decIndent indent1 in
      seqOut
        [Inr ''('',
         Inr (prepareColor env),
         (case op of
            ConvertUInt32 \<Rightarrow> Inr ''f64.convert_u/i32''
          | ConvertSInt32 \<Rightarrow> Inr ''f64.convert_s/i32''
          | TruncSFloat64 \<Rightarrow> Inr ''i32.trunc_s/f64''
          | _ \<Rightarrow> Inl Abort),
         Inr (restoreNormalColor env),
         Inr nl,
         printFullLine env indent1 val,
         Inr cl])"
| "print env indent (Host ty op operands) = Inl PureVirtualCall"

subsection \<open>Functions\<close>

record NameType =
  NameType_name :: Name
  NameType_type :: WasmType

record Function =
  Function_name :: Name
  Function_result :: WasmType
  Function_params :: "NameType list"
  Function_locals :: "NameType list"
  Function_body :: Expression

subsection \<open>The walker\<close>

text \<open>
  A \<open>WasmWalker\<close> is its twenty virtual hooks. A hook receives the node, whose children
  have been walked already, and returns the node that replaces it; it may read and
  change the walker object, whose state is \<open>'s\<close>.
\<close>

record 's WasmWalker =
  walkBlock :: "Expression \<Rightarrow> 's \<Rightarrow> Expression \<times> 's"
  walkIf :: "Expression \<Rightarrow> 's \<Rightarrow> Expression \<times> 's"
  walkLoop :: "Expression \<Rightarrow> 's \<Rightarrow> Expression \<times> 's"
  walkLabel :: "Expression \<Rightarrow> 's \<Rightarrow> Expression \<times> 's"
  walkBreak :: "Expression \<Rightarrow> 's \<Rightarrow> Expression \<times> 's"
  walkSwitch :: "Expression \<Rightarrow> 's \<Rightarrow> Expression \<times> 's"
  walkCall :: "Expression \<Rightarrow> 's \<Rightarrow> Expression \<times> 's"
  walkCallImport :: "Expression \<Rightarrow> 's \<Rightarrow> Expression \<times> 's"
  walkCallIndirect :: "Expression \<Rightarrow> 's \<Rightarrow> Expression \<times> 's"
  walkGetLocal :: "Expression \<Rightarrow> 's \<Rightarrow> Expression \<times> 's"
  walkSetLocal :: "Expression \<Rightarrow> 's \<Rightarrow> Expression \<times> 's"
  walkLoad :: "Expression \<Rightarrow> 's \<Rightarrow> Expression \<times> 's"
  walkStore :: "Expression \<Rightarrow> 's \<Rightarrow> Expression \<times> 's"
  walkConst :: "Expression \<Rightarrow> 's \<Rightarrow> Expression \<times> 's"
  walkUnary :: "Expression \<Rightarrow> 's \<Rightarrow> Expression \<times> 's"
  walkBinary :: "Expression \<Rightarrow> 's \<Rightarrow> Expression \<times> 's"
  walkCompare :: "Expression \<Rightarrow> 's \<Rightarrow> Expression \<times> 's"
  walkConvert :: "Expression \<Rightarrow> 's \<Rightarrow> Expression \<times> 's"
  walkHost :: "Expression \<Rightarrow> 's \<Rightarrow> Expression \<times> 's"
  walkNop :: "Expression \<Rightarrow> 's \<Rightarrow> Expression \<times> 's"

text \<open>The default hooks: \<open>return curr\<close>.\<close>

definition WasmWalker_default :: "'s WasmWalker" where
  "WasmWalker_default =
     \<lparr> walkBlock = (\<lambda>expr s. (expr, s)),
       walkIf = (\<lambda>expr s. (expr, s)),
       walkLoop = (\<lambda>expr s. (expr, s)),
       walkLabel = (\<lambda>expr s. (expr, s)),
       walkBreak = (\<lambda>expr s. (expr, s)),
       walkSwitch = (\<lambda>expr s. (expr, s)),
       walkCall = (\<lambda>expr s. (expr, s)),
       walkCallImport = (\<lambda>expr s. (expr, s)),
       walkCallIndirect = (\<lambda>expr s. (expr, s)),
       walkGetLocal = (\<lambda>expr s. (expr, s)),
       walkSetLocal = (\<lambda>expr s. (expr, s)),
       walkLoad = (\<lambda>expr s. (expr, s)),
       walkStore = (\<lambda>expr s. (expr, s)),
       walkConst = (\<lambda>expr s. (expr, s)),
       walkUnary = (\<lambda>expr s. (expr, s)),
       walkBinary = (\<lambda>expr s. (expr, s)),
       walkCompare = (\<lambda>expr s. (expr, s)),
       walkConvert = (\<lambda>expr s. (expr, s)),
       walkHost = (\<lambda>expr s. (expr, s)),
       walkNop = (\<lambda>expr s. (expr, s)) \<rparr>"

text \<open>
  \<open>walk\<close>, children first. \<open>walkOpt\<close> is \<open>walk\<close> on a pointer that may be null
  (\<open>if (!curr) return curr\<close>), \<open>walkList\<close> the loop over an \<open>ExpressionList\<close>,
  \<open>walkCases\<close> the loop over the cases of a \<open>Switch\<close>.

  The chain of \<open>dynamic_cast\<close> tests is tried in the order of the source. A
  \<open>CallImport\<close> is a \<open>Call\<close> (\<open>class CallImport : public Call\<close>), so
  \<open>dynamic_cast<Call*>\<close> succeeds on it and the \<open>Call\<close> branch handles it; the
  \<open>CallImport\<close> branch below it is never reached. The final \<open>abort()\<close> is not reached
  either: the twenty classes are all the constructors.
\<close>

fun walk :: "'s WasmWalker \<Rightarrow> Expression \<Rightarrow> 's \<Rightarrow> Expression \<times> 's"
  and walkOpt :: "'s WasmWalker \<Rightarrow> Expression option \<Rightarrow> 's \<Rightarrow> Expression option \<times> 's"
  and walkList :: "'s WasmWalker \<Rightarrow> Expression list \<Rightarrow> 's \<Rightarrow> Expression list \<times> 's"
  and walkCases :: "'s WasmWalker \<Rightarrow> (Literal \<times> Expression \<times> bool) list \<Rightarrow> 's
                     \<Rightarrow> (Literal \<times> Expression \<times> bool) list \<times> 's"
where
  "walkOpt w None s = (None, s)"
| "walkOpt w (Some expr) s = (let (expr1, s1) = walk w expr s in (Some expr1, s1))"
| "walkList w [] s = ([], s)"
| "walkList w (expr # rest) s =
     (let (expr1, s1) = walk w expr s;
          (rest1, s2) = walkList w rest s1
      in (expr1 # rest1, s2))"
| "walkCases w [] s = ([], s)"
| "walkCases w ((v, body, fallthru) # rest) s =
     (let (body1, s1) = walk w body s;
          (rest1, s2) = walkCases w rest s1
      in ((v, body1, fallthru) # rest1, s2))"
| "walk w (Block ty name list) s =
     (let (list1, s1) = walkList w list s
      in walkBlock w (Block ty name list1) s1)"
| "walk w (If_expr ty condition ifTrue ifFalse) s =
     (let (condition1, s1) = walk w condition s;
          (ifTrue1, s2) = walk w ifTrue s1;
          (ifFalse1, s3) = walkOpt w ifFalse s2
      in walkIf w (If_expr ty condition1 ifTrue1 ifFalse1) s3)"
| "walk w (Loop ty out in' body) s =
     (let (body1, s1) = walk w body s
      in walkLoop w (Loop ty out in' body1) s1)"
| "walk w (Label ty name) s = walkLabel w (Label ty name) s"
| "walk w (Break ty name condition val) s =
     (let (condition1, s1) = walkOpt w condition s;
          (val1, s2) = walkOpt w val s1
      in walkBreak w (Break ty name condition1 val1) s2)"
| "walk w (Switch ty name val cases default') s =
     (let (val1, s1) = walk w val s;
          (cases1, s2) = walkCases w cases s1;
          (default1, s3) = walk w default' s2
      in walkSwitch w (Switch ty name val1 cases1 default1) s3)"
| "walk w (Call ty target operands) s =
     (let (list1, s1) = walkList w operands s
      in walkCall w (Call ty target list1) s1)"
| "walk w (CallImport ty target operands) s =
     (let (list1, s1) = walkList w operands s
      in walkCall w (CallImport ty target list1) s1)"
| "walk w (CallIndirect ty fty target operands) s =
     (let (target1, s1) = walk w target s;
          (list1, s2) = walkList w operands s1
      in walkCallIndirect w (CallIndirect ty fty target1 list1) s2)"
| "walk w (GetLocal ty id') s = walkGetLocal w (GetLocal ty id') s"
| "walk w (SetLocal ty id' val) s =
     (let (val1, s1) = walk w val s
      in walkSetLocal w (SetLocal ty id' val1) s1)"
| "walk w (Load ty bytes signed' float' offset align ptr) s =
     (let (ptr1, s1) = walk w ptr s
      in walkLoad w (Load ty bytes signed' float' offset align ptr1) s1)"
| "walk w (Store ty bytes float' offset align ptr val) s =
     (let (ptr1, s1) = walk w ptr s;
          (val1, s2) = walk w val s1
      in walkStore w (Store ty bytes float' offset align ptr1 val1) s2)"
| "walk w (Const_expr c) s = walkConst w (Const_expr c) s"
| "walk w (Unary ty op val) s =
     (let (val1, s1) = walk w val s
      in walkUnary w (Unary ty op val1) s1)"
| "walk w (Binary ty op left right) s =
     (let (left1, s1) = walk w left s;
          (right1, s2) = walk w right s1
      in walkBinary w (Binary ty op left1 right1) s2)"
| "walk w (Compare ty op inputType left right) s =
     (let (left1, s1) = walk w left s;
          (right1, s2) = walk w right s1
      in walkCompare w (Compare ty op inputType left1 right1) s2)"
| "walk w (Convert ty op val) s =
     (let (val1, s1) = walk w val s
      in walkConvert w (Convert ty op val1) s1)"
| "walk w (Host ty op operands) s =
     (let (list1, s1) = walkList w operands s
      in walkHost w (Host ty op list1) s1)"
| "walk w (Nop ty) s = walkNop w (Nop ty) s"

definition startWalk :: "'s WasmWalker \<Rightarrow> Function \<Rightarrow> 's \<Rightarrow> Function \<times> 's" where
  "startWalk w func s =
     (let (body1, s1) = walk w (Function_body func) s
      in (func\<lparr>Function_body := body1\<rparr>, s1))"

text \<open>The inherited field \<open>type\<close> of a node.\<close>

fun Expression_type :: "Expression \<Rightarrow> WasmType" where
  "Expression_type (Nop ty) = ty"
| "Expression_type (Block ty name list) = ty"
| "Expression_type (If_expr ty condition ifTrue ifFalse) = ty"
| "Expression_type (Loop ty out in' body) = ty"
| "Expression_type (Label ty name) = ty"
| "Expression_type (Break ty name condition val) = ty"
| "Expression_type (Switch ty name val cases default') = ty"
| "Expression_type (Call ty target operands) = ty"
| "Expression_type (CallImport ty target operands) = ty"
| "Expression_type (CallIndirect ty fty target operands) = ty"
| "Expression_type (GetLocal ty id') = ty"
| "Expression_type (SetLocal ty id' val) = ty"
| "Expression_type (Load ty bytes signed' float' offset align ptr) = ty"
| "Expression_type (Store ty bytes float' offset align ptr val) = ty"
| "Expression_type (Const_expr c) = Const_type c"
| "Expression_type (Unary ty op val) = ty"
| "Expression_type (Binary ty op left right) = ty"
| "Expression_type (Compare ty op inputType left right) = ty"
| "Expression_type (Convert ty op val) = ty"
| "Expression_type (Host ty op operands) = ty"

subsection \<open>Sample parameters\<close>

text \<open>
  Values of the parameters for evaluating the printer on concrete trees: colours off, and
  the formatter tabulated at the doubles \<open>-0.5\<close> and \<open>0.25\<close>, for which
  \<open>numToString\<close> returns the texts without the leading zero. \<open>0xBF000000\<close> and
  \<open>0x3E800000\<close> are the same two numbers as \<open>float\<close>.
\<close>

definition sampleFloatToDouble :: "float32 \<Rightarrow> float64" where
  "sampleFloatToDouble x =
     (if x = 0xBF000000 then 0xBFE0000000000000
      else if x = 0x3E800000 then 0x3FD0000000000000
      else 0)"

definition sampleNumToString :: "float64 \<Rightarrow> string" where
  "sampleNumToString d =
     (if d = 0xBFE0000000000000 then ''-.5''
      else if d = 0x3FD0000000000000 then ''.25''
      else ''0'')"

definition plainEnv :: Env where
  "plainEnv =
     \<lparr> Colors_red = [], Colors_bold = [], Colors_magenta = [], Colors_orange = [],
       Colors_green = [], Colors_normal = [],
       floatToDouble = sampleFloatToDouble,
       JSPrinter_numToString = sampleNumToString \<rparr>"

subsection \<open>What the specification says, for comparison\<close>

text \<open>
  The operator names of a comparison, the type derived from a width and the float flag,
  and the mnemonics of loads and stores, as the specification words them.
\<close>

fun spec_RelationalOp_name :: "RelationalOp \<Rightarrow> string" where
  "spec_RelationalOp_name Eq = ''eq''"
| "spec_RelationalOp_name Ne = ''ne''"
| "spec_RelationalOp_name LtS = ''lt_s''"
| "spec_RelationalOp_name LtU = ''lt_u''"
| "spec_RelationalOp_name LeS = ''le_s''"
| "spec_RelationalOp_name LeU = ''le_u''"
| "spec_RelationalOp_name GtS = ''gt_s''"
| "spec_RelationalOp_name GtU = ''gt_u''"
| "spec_RelationalOp_name GeS = ''ge_s''"
| "spec_RelationalOp_name GeU = ''ge_u''"
| "spec_RelationalOp_name Lt = ''lt''"
| "spec_RelationalOp_name Le = ''le''"
| "spec_RelationalOp_name Gt = ''gt''"
| "spec_RelationalOp_name Ge = ''ge''"

definition spec_derivedType :: "32 word \<Rightarrow> bool \<Rightarrow> WasmType" where
  "spec_derivedType bytes isFloat' =
     (if bytes < 4 \<or> (bytes = 4 \<and> \<not> isFloat') then i32
      else if bytes = 4 then f32
      else if isFloat' then f64 else i64)"

definition spec_widthSuffix :: "32 word \<Rightarrow> string" where
  "spec_widthSuffix bytes = (if bytes = 1 then ''8'' else if bytes = 2 then ''16'' else [])"

definition spec_Load_mnemonic :: "32 word \<Rightarrow> bool \<Rightarrow> bool \<Rightarrow> string" where
  "spec_Load_mnemonic bytes isFloat' isSigned =
     printWasmType (spec_derivedType bytes isFloat') @ ''.load'' @
     (if bytes < 4 then spec_widthSuffix bytes @ (if isSigned then ''_s'' else ''_u'') else [])"

definition spec_Store_mnemonic :: "32 word \<Rightarrow> bool \<Rightarrow> string" where
  "spec_Store_mnemonic bytes isFloat' =
     printWasmType (spec_derivedType bytes isFloat') @ ''.store'' @
     (if bytes < 4 then spec_widthSuffix bytes else [])"

text \<open>
  The rewrite hooks by name, a walker that records every hook invocation with the node it
  receives, each class's own hook, and the children of every variant in the order of the
  specification's table, children before parent.
\<close>

datatype Hook =
    HookBlock | HookIf | HookLoop | HookLabel | HookBreak | HookSwitch | HookCall
  | HookCallImport | HookCallIndirect | HookGetLocal | HookSetLocal | HookLoad | HookStore
  | HookConst | HookUnary | HookBinary | HookCompare | HookConvert | HookHost | HookNop

definition recordHook :: "Hook \<Rightarrow> Expression \<Rightarrow> (Hook \<times> Expression) list
    \<Rightarrow> Expression \<times> (Hook \<times> Expression) list" where
  "recordHook h expr visited = (expr, visited @ [(h, expr)])"

definition WasmWalker_recording :: "(Hook \<times> Expression) list WasmWalker" where
  "WasmWalker_recording =
     \<lparr> walkBlock = recordHook HookBlock,
       walkIf = recordHook HookIf,
       walkLoop = recordHook HookLoop,
       walkLabel = recordHook HookLabel,
       walkBreak = recordHook HookBreak,
       walkSwitch = recordHook HookSwitch,
       walkCall = recordHook HookCall,
       walkCallImport = recordHook HookCallImport,
       walkCallIndirect = recordHook HookCallIndirect,
       walkGetLocal = recordHook HookGetLocal,
       walkSetLocal = recordHook HookSetLocal,
       walkLoad = recordHook HookLoad,
       walkStore = recordHook HookStore,
       walkConst = recordHook HookConst,
       walkUnary = recordHook HookUnary,
       walkBinary = recordHook HookBinary,
       walkCompare = recordHook HookCompare,
       walkConvert = recordHook HookConvert,
       walkHost = recordHook HookHost,
       walkNop = recordHook HookNop \<rparr>"

fun spec_ownHook :: "Expression \<Rightarrow> Hook" where
  "spec_ownHook (Nop ty) = HookNop"
| "spec_ownHook (Block ty name list) = HookBlock"
| "spec_ownHook (If_expr ty condition ifTrue ifFalse) = HookIf"
| "spec_ownHook (Loop ty out in' body) = HookLoop"
| "spec_ownHook (Label ty name) = HookLabel"
| "spec_ownHook (Break ty name condition val) = HookBreak"
| "spec_ownHook (Switch ty name val cases default') = HookSwitch"
| "spec_ownHook (Call ty target operands) = HookCall"
| "spec_ownHook (CallImport ty target operands) = HookCallImport"
| "spec_ownHook (CallIndirect ty fty target operands) = HookCallIndirect"
| "spec_ownHook (GetLocal ty id') = HookGetLocal"
| "spec_ownHook (SetLocal ty id' val) = HookSetLocal"
| "spec_ownHook (Load ty bytes signed' float' offset align ptr) = HookLoad"
| "spec_ownHook (Store ty bytes float' offset align ptr val) = HookStore"
| "spec_ownHook (Const_expr c) = HookConst"
| "spec_ownHook (Unary ty op val) = HookUnary"
| "spec_ownHook (Binary ty op left right) = HookBinary"
| "spec_ownHook (Compare ty op inputType left right) = HookCompare"
| "spec_ownHook (Convert ty op val) = HookConvert"
| "spec_ownHook (Host ty op operands) = HookHost"

fun is_CallImport :: "Expression \<Rightarrow> bool" where
  "is_CallImport (CallImport ty target operands) = True"
| "is_CallImport expr = False"

fun spec_postorder :: "Expression \<Rightarrow> Expression list"
  and spec_postorderOpt :: "Expression option \<Rightarrow> Expression list"
  and spec_postorderList :: "Expression list \<Rightarrow> Expression list"
  and spec_postorderCases :: "(Literal \<times> Expression \<times> bool) list \<Rightarrow> Expression list"
where
  "spec_postorderOpt None = []"
| "spec_postorderOpt (Some expr) = spec_postorder expr"
| "spec_postorderList [] = []"
| "spec_postorderList (expr # rest) = spec_postorder expr @ spec_postorderList rest"
| "spec_postorderCases [] = []"
| "spec_postorderCases ((v, body, fallthru) # rest) = spec_postorder body @ spec_postorderCases rest"
| "spec_postorder (Nop ty) = [Nop ty]"
| "spec_postorder (Block ty name list) = spec_postorderList list @ [Block ty name list]"
| "spec_postorder (If_expr ty condition ifTrue ifFalse) =
     spec_postorder condition @ spec_postorder ifTrue @ spec_postorderOpt ifFalse
       @ [If_expr ty condition ifTrue ifFalse]"
| "spec_postorder (Loop ty out in' body) = spec_postorder body @ [Loop ty out in' body]"
| "spec_postorder (Label ty name) = [Label ty name]"
| "spec_postorder (Break ty name condition val) =
     spec_postorderOpt condition @ spec_postorderOpt val @ [Break ty name condition val]"
| "spec_postorder (Switch ty name val cases default') =
     spec_postorder val @ spec_postorderCases cases @ spec_postorder default'
       @ [Switch ty name val cases default']"
| "spec_postorder (Call ty target operands) =
     spec_postorderList operands @ [Call ty target operands]"
| "spec_postorder (CallImport ty target operands) =
     spec_postorderList operands @ [CallImport ty target operands]"
| "spec_postorder (CallIndirect ty fty target operands) =
     spec_postorder target @ spec_postorderList operands
       @ [CallIndirect ty fty target operands]"
| "spec_postorder (GetLocal ty id') = [GetLocal ty id']"
| "spec_postorder (SetLocal ty id' val) = spec_postorder val @ [SetLocal ty id' val]"
| "spec_postorder (Load ty bytes signed' float' offset align ptr) =
     spec_postorder ptr @ [Load ty bytes signed' float' offset align ptr]"
| "spec_postorder (Store ty bytes float' offset align ptr val) =
     spec_postorder ptr @ spec_postorder val @ [Store ty bytes float' offset align ptr val]"
| "spec_postorder (Const_expr c) = [Const_expr c]"
| "spec_postorder (Unary ty op val) = spec_postorder val @ [Unary ty op val]"
| "spec_postorder (Binary ty op left right) =
     spec_postorder left @ spec_postorder right @ [Binary ty op left right]"
| "spec_postorder (Compare ty op inputType left right) =
     spec_postorder left @ spec_postorder right @ [Compare ty op inputType left right]"
| "spec_postorder (Convert ty op val) = spec_postorder val @ [Convert ty op val]"
| "spec_postorder (Host ty op operands) = spec_postorderList operands @ [Host ty op operands]"

definition dispatchedHook :: "Expression \<Rightarrow> Hook" where
  "dispatchedHook expr = (if is_CallImport expr then HookCall else spec_ownHook expr)"

text \<open>
  The rewrite of the specification's scenario: a walker whose \<open>walkConst\<close> replaces the
  literal of every \<open>Const\<close> by the zero of the node's type, the other hooks being the
  default ones.
\<close>

definition zeroLiteral :: "WasmType \<Rightarrow> Literal" where
  "zeroLiteral ty =
     (case ty of
        none \<Rightarrow> Literal_none
      | i32 \<Rightarrow> Literal_i32 0
      | i64 \<Rightarrow> Literal_i64 0
      | f32 \<Rightarrow> Literal_f32 0
      | f64 \<Rightarrow> Literal_f64 0)"

definition zeroConstHook :: "Expression \<Rightarrow> 's \<Rightarrow> Expression \<times> 's" where
  "zeroConstHook expr s =
     (case expr of
        Const_expr c \<Rightarrow> (Const_expr (Const_set c (zeroLiteral (Const_type c))), s)
      | _ \<Rightarrow> (expr, s))"

definition WasmWalker_zeroConst :: "'s WasmWalker" where
  "WasmWalker_zeroConst = WasmWalker_default\<lparr>walkConst := zeroConstHook\<rparr>"

section \<open>Properties\<close>

subsection \<open>Output sequences\<close>

lemma seqOut_Inr_Inr: "seqOut (Inr a # Inr b # rest) = seqOut (Inr (a @ b) # rest)"
  by (cases "seqOut rest") simp_all

lemma seqOut_single: "seqOut [x] = x"
  by (cases x) simp_all

lemma seqOut_Inr_Nil: "seqOut (Inr [] # rest) = seqOut rest"
  by (cases "seqOut rest") simp_all

lemma indent_roundtrip:
  "incIndent indent = (''\<newline>'', indent + 1)"
  "decIndent (indent + 1) = (doIndent indent @ '')'', indent)"
  by (simp_all add: incIndent_def decIndent_def)

lemma seqOut_Inr_Inl: "seqOut (Inr a # Inl e # rest) = Inl e"
  by simp

lemmas seqOut_norm = seqOut_Inr_Inr seqOut_single seqOut_Inr_Inl seqOut.simps(2)

lemma print_Load:
  "print env indent (Load ty bytes signed' float' offset align ptr) =
     (if bytes \<noteq> 1 \<and> bytes \<noteq> 2 \<and> bytes \<noteq> 4 \<and> bytes \<noteq> 8 then Inl Abort
      else if offset \<noteq> 0 then Inl AssertionFailed
      else seqOut
        [Inr (''('' @ prepareColor env @ spec_Load_mnemonic bytes float' signed' @
              restoreNormalColor env @ '' align='' @ showNat (unat align) @ ''\<newline>''),
         printFullLine env (indent + 1) ptr,
         Inr (doIndent indent @ '')'')])"
proof -
  consider "bytes = 1" | "bytes = 2" | "bytes = 4" | "bytes = 8"
    | "bytes < 4" "bytes \<noteq> 1" "bytes \<noteq> 2"
    | "\<not> bytes < 4" "bytes \<noteq> 4" "bytes \<noteq> 8"
    by blast
  then show ?thesis
  proof cases
    case 1
    then show ?thesis
      by (simp add: indent_roundtrip getWasmType_def spec_Load_mnemonic_def spec_derivedType_def
          spec_widthSuffix_def seqOut_norm del: printFullLine.simps seqOut.simps(3))
  next
    case 2
    then show ?thesis
      by (simp add: indent_roundtrip getWasmType_def spec_Load_mnemonic_def spec_derivedType_def
          spec_widthSuffix_def seqOut_norm del: printFullLine.simps seqOut.simps(3))
  next
    case 3
    then show ?thesis
      by (simp add: indent_roundtrip getWasmType_def spec_Load_mnemonic_def spec_derivedType_def
          spec_widthSuffix_def seqOut_norm del: printFullLine.simps seqOut.simps(3))
  next
    case 4
    then show ?thesis
      by (simp add: indent_roundtrip getWasmType_def spec_Load_mnemonic_def spec_derivedType_def
          spec_widthSuffix_def seqOut_norm del: printFullLine.simps seqOut.simps(3))
  next
    case 5
    then have "bytes \<noteq> 4" "bytes \<noteq> 8" by auto
    with 5 show ?thesis
      by (simp add: indent_roundtrip getWasmType_def seqOut_norm del: printFullLine.simps seqOut.simps(3))
  next
    case 6
    then have "bytes \<noteq> 1" "bytes \<noteq> 2" by auto
    with 6 show ?thesis
      by (simp add: indent_roundtrip getWasmType_def seqOut_norm del: printFullLine.simps seqOut.simps(3))
  qed
qed

lemma print_Store:
  "print env indent (Store ty bytes float' offset align ptr val) =
     (if bytes \<noteq> 1 \<and> bytes \<noteq> 2 \<and> bytes \<noteq> 4 \<and> bytes \<noteq> 8 then Inl Abort
      else if offset \<noteq> 0 then Inl AssertionFailed
      else seqOut
        [Inr (''('' @ prepareColor env @ spec_Store_mnemonic bytes float' @
              restoreNormalColor env @ '' align='' @ showNat (unat align) @ ''\<newline>''),
         printFullLine env (indent + 1) ptr,
         printFullLine env (indent + 1) val,
         Inr (doIndent indent @ '')'')])"
proof -
  consider "bytes = 1" | "bytes = 2" | "bytes = 4" | "bytes = 8"
    | "bytes < 4" "bytes \<noteq> 1" "bytes \<noteq> 2"
    | "\<not> bytes < 4" "bytes \<noteq> 4" "bytes \<noteq> 8"
    by blast
  then show ?thesis
  proof cases
    case 1
    then show ?thesis
      by (simp add: indent_roundtrip getWasmType_def spec_Store_mnemonic_def spec_derivedType_def
          spec_widthSuffix_def seqOut_norm del: printFullLine.simps seqOut.simps(3))
  next
    case 2
    then show ?thesis
      by (simp add: indent_roundtrip getWasmType_def spec_Store_mnemonic_def spec_derivedType_def
          spec_widthSuffix_def seqOut_norm del: printFullLine.simps seqOut.simps(3))
  next
    case 3
    then show ?thesis
      by (simp add: indent_roundtrip getWasmType_def spec_Store_mnemonic_def spec_derivedType_def
          spec_widthSuffix_def seqOut_norm del: printFullLine.simps seqOut.simps(3))
  next
    case 4
    then show ?thesis
      by (simp add: indent_roundtrip getWasmType_def spec_Store_mnemonic_def spec_derivedType_def
          spec_widthSuffix_def seqOut_norm del: printFullLine.simps seqOut.simps(3))
  next
    case 5
    then have "bytes \<noteq> 4" "bytes \<noteq> 8" by auto
    with 5 show ?thesis
      by (simp add: indent_roundtrip getWasmType_def seqOut_norm del: printFullLine.simps seqOut.simps(3))
  next
    case 6
    then have "bytes \<noteq> 1" "bytes \<noteq> 2" by auto
    with 6 show ?thesis
      by (simp add: indent_roundtrip getWasmType_def seqOut_norm del: printFullLine.simps seqOut.simps(3))
  qed
qed

subsection \<open>The walker with the default and with the recording hooks\<close>

lemma walk_default_aux:
  "w = WasmWalker_default \<Longrightarrow> walk w e s = (e, s)"
  "w = WasmWalker_default \<Longrightarrow> walkOpt w oe s = (oe, s)"
  "w = WasmWalker_default \<Longrightarrow> walkList w es s = (es, s)"
  "w = WasmWalker_default \<Longrightarrow> walkCases w cs s = (cs, s)"
  by (induction w e s and w oe s and w es s and w cs s
      rule: walk_walkOpt_walkList_walkCases.induct)
    (simp_all add: WasmWalker_default_def)

lemma walk_recording_aux:
  "w = WasmWalker_recording \<Longrightarrow>
     walk w e s = (e, s @ map (\<lambda>n. (dispatchedHook n, n)) (spec_postorder e))"
  "w = WasmWalker_recording \<Longrightarrow>
     walkOpt w oe s = (oe, s @ map (\<lambda>n. (dispatchedHook n, n)) (spec_postorderOpt oe))"
  "w = WasmWalker_recording \<Longrightarrow>
     walkList w es s = (es, s @ map (\<lambda>n. (dispatchedHook n, n)) (spec_postorderList es))"
  "w = WasmWalker_recording \<Longrightarrow>
     walkCases w cs s = (cs, s @ map (\<lambda>n. (dispatchedHook n, n)) (spec_postorderCases cs))"
  by (induction w e s and w oe s and w es s and w cs s
      rule: walk_walkOpt_walkList_walkCases.induct)
    (simp_all add: WasmWalker_recording_def recordHook_def dispatchedHook_def)

subsection \<open>Decimal notation and the rewrites of \<open>printDouble\<close>\<close>

lemma digitValue_digitChar: "d < 10 \<Longrightarrow> digitValue (digitChar d) = d"
proof -
  assume "d < 10"
  then have "d = 0 \<or> d = 1 \<or> d = 2 \<or> d = 3 \<or> d = 4 \<or> d = 5 \<or> d = 6 \<or> d = 7
      \<or> d = 8 \<or> d = 9"
    by arith
  then show ?thesis
    by (elim disjE) (simp_all add: digitValue_def digitChar_def)
qed

lemma decimalValue_snoc: "decimalValue (s @ [c]) = 10 * decimalValue s + digitValue c"
  by (simp add: decimalValue_def)

lemma decimalValue_showNat: "decimalValue (showNat n) = n"
proof (induction n rule: showNat.induct)
  case (1 n)
  show ?case
  proof (cases "n < 10")
    case True
    then show ?thesis
      by (subst showNat.simps) (simp add: decimalValue_def digitValue_digitChar)
  next
    case False
    with 1 have "decimalValue (showNat (n div 10)) = n div 10" by simp
    with False show ?thesis
      by (subst showNat.simps) (simp add: decimalValue_snoc digitValue_digitChar)
  qed
qed

lemma digitChar_digit: "d < 10 \<Longrightarrow> digitChar d \<in> set ''0123456789''"
proof -
  assume "d < 10"
  then have "d = 0 \<or> d = 1 \<or> d = 2 \<or> d = 3 \<or> d = 4 \<or> d = 5 \<or> d = 6 \<or> d = 7
      \<or> d = 8 \<or> d = 9"
    by arith
  then show ?thesis
    by (elim disjE) (simp_all add: digitChar_def)
qed

lemma digitChar_zero: "d < 10 \<Longrightarrow> (digitChar d = CHR ''0'') = (d = 0)"
proof -
  assume "d < 10"
  then have "d = 0 \<or> d = 1 \<or> d = 2 \<or> d = 3 \<or> d = 4 \<or> d = 5 \<or> d = 6 \<or> d = 7
      \<or> d = 8 \<or> d = 9"
    by arith
  then show ?thesis
    by (elim disjE) (simp_all add: digitChar_def)
qed

lemma showNat_nonempty: "showNat n \<noteq> []"
  by (subst showNat.simps) simp

lemma showNat_digits: "set (showNat n) \<subseteq> set ''0123456789''"
proof (induction n rule: showNat.induct)
  case (1 n)
  show ?case
  proof (cases "n < 10")
    case True
    then show ?thesis
      using digitChar_digit [of n] by (subst showNat.simps) simp
  next
    case False
    with 1 have "set (showNat (n div 10)) \<subseteq> set ''0123456789''" by simp
    moreover have "digitChar (n mod 10) \<in> set ''0123456789''"
      by (rule digitChar_digit) simp
    ultimately show ?thesis
      using False by (subst showNat.simps) simp
  qed
qed

lemma showNat_leading_zero: "(hd (showNat n) = CHR ''0'') = (n = 0)"
proof (induction n rule: showNat.induct)
  case (1 n)
  show ?case
  proof (cases "n < 10")
    case True
    then show ?thesis
      using digitChar_zero [of n] by (subst showNat.simps) simp
  next
    case False
    with 1 have "(hd (showNat (n div 10)) = CHR ''0'') = (n div 10 = 0)" by simp
    moreover from False have "n div 10 \<noteq> 0" by simp
    ultimately have "hd (showNat (n div 10)) \<noteq> CHR ''0''" by simp
    with False show ?thesis
      by (subst showNat.simps) (simp add: showNat_nonempty)
  qed
qed

lemma showNat_0: "showNat 0 = ''0''"
  by (simp add: showNat.simps digitChar_def)

lemma printDouble_dot:
  "JSPrinter_numToString env d = ''.'' @ rest \<Longrightarrow> printDouble env d = ''0.'' @ rest"
  by (simp add: printDouble_def cstrAt_def)

lemma printDouble_minus_dot:
  "JSPrinter_numToString env d = ''-.'' @ rest \<Longrightarrow> printDouble env d = ''-0.'' @ rest"
  by (simp add: printDouble_def cstrAt_def)

lemma printDouble_other:
  "take 1 (JSPrinter_numToString env d) \<noteq> ''.'' \<Longrightarrow>
   take 2 (JSPrinter_numToString env d) \<noteq> ''-.'' \<Longrightarrow>
   printDouble env d = JSPrinter_numToString env d"
proof -
  assume a: "take 1 (JSPrinter_numToString env d) \<noteq> ''.''"
    and b: "take 2 (JSPrinter_numToString env d) \<noteq> ''-.''"
  obtain str where t: "JSPrinter_numToString env d = str" by simp
  show ?thesis
  proof (cases str)
    case Nil
    with t show ?thesis by (simp add: printDouble_def cstrAt_def)
  next
    case (Cons c cs)
    show ?thesis
    proof (cases cs)
      case Nil
      with Cons t a show ?thesis by (simp add: printDouble_def cstrAt_def)
    next
      case (Cons c' cs')
      with \<open>str = c # cs\<close> t a b show ?thesis by (auto simp add: printDouble_def cstrAt_def)
    qed
  qed
qed

subsection \<open>Evaluation on concrete trees\<close>

lemmas eval_print =
  plainEnv_def sampleFloatToDouble_def sampleNumToString_def Compare_new_def incIndent_def
  decIndent_def doIndent_def prepareColor_def prepareMinorColor_def restoreNormalColor_def
  printOpening_def printMinorOpening_def printName_def Name_is_def printLiteral_def
  printDouble_def cstrAt_def showInt_def showNat.simps digitChar_def getWasmType_def

subsection \<open>Claims\<close>

text \<open>C8: the size of a value type in bytes is 4, 8, 4, 8 for \<open>i32\<close>, \<open>i64\<close>, \<open>f32\<close>,
  \<open>f64\<close>, and the query aborts for \<open>none\<close>.\<close>

theorem getWasmTypeSize_table:
  "getWasmTypeSize i32 = Inr 4 \<and> getWasmTypeSize i64 = Inr 8 \<and>
   getWasmTypeSize f32 = Inr 4 \<and> getWasmTypeSize f64 = Inr 8 \<and>
   getWasmTypeSize none = Inl Abort"
  by simp

text \<open>
  C1, as amended: a \<open>Compare\<close> node prints the mnemonic \<open><inputType>.<op>\<close>. The
  value-type component is the node's operand value type, the field \<open>inputType\<close>, whatever
  the output type \<open>ty\<close> is; the operator names are those of the specification.
\<close>

theorem Compare_print_mnemonic:
  "print env indent (Compare ty op inputType left right) =
     seqOut
       [Inr (''('' @ prepareColor env @ printWasmType inputType @ ''.'' @
             spec_RelationalOp_name op @ restoreNormalColor env @ ''\<newline>''),
        printFullLine env (indent + 1) left,
        printFullLine env (indent + 1) right,
        Inr (doIndent indent @ '')'')]"
  by (cases op)
    (simp_all add: indent_roundtrip seqOut_Inr_Inr del: seqOut.simps(3) printFullLine.simps)

text \<open>C1 at a comparison of two \<open>f64\<close> locals.\<close>

theorem Compare_print_mnemonic_witness:
  "print plainEnv 0 (Compare i32 Lt f64 (GetLocal f64 (Some ''x'')) (GetLocal f64 (Some ''y'')))
     = Inr ''(f64.lt\<newline>  (get_local $x)\<newline>  (get_local $y)\<newline>)''"
  using Compare_print_mnemonic [of plainEnv 0 i32 Lt f64 "GetLocal f64 (Some ''x'')"
      "GetLocal f64 (Some ''y'')"]
  by (simp add: eval_print)

text \<open>
  C1 as stated fails: the node built by the constructor has output type \<open>i32\<close>, and its
  mnemonic is \<open>f64.lt\<close>, not \<open>i32.lt\<close>.
\<close>

theorem Compare_print_output_type_counterexample:
  "Expression_type (Compare_new Lt f64 (GetLocal f64 (Some ''x'')) (GetLocal f64 (Some ''y''))) = i32
   \<and> print plainEnv 0 (Compare_new Lt f64 (GetLocal f64 (Some ''x'')) (GetLocal f64 (Some ''y'')))
     = Inr ''(f64.lt\<newline>  (get_local $x)\<newline>  (get_local $y)\<newline>)''
   \<and> print plainEnv 0 (Compare_new Lt f64 (GetLocal f64 (Some ''x'')) (GetLocal f64 (Some ''y'')))
     \<noteq> Inr (''('' @ printWasmType
           (Expression_type
             (Compare_new Lt f64 (GetLocal f64 (Some ''x'')) (GetLocal f64 (Some ''y''))))
         @ ''.'' @ spec_RelationalOp_name Lt
         @ ''\<newline>  (get_local $x)\<newline>  (get_local $y)\<newline>)'')"
  by (simp add: eval_print)



text \<open>
  C7: printing a \<open>Load\<close> or a \<open>Store\<close> whose offset is not zero fails (for the widths
  1, 2, 4 and 8 at the assertion \<open>assert(!offset)\<close>, for the others at an earlier \<open>abort()\<close>),
  and a \<open>Load\<close> or \<open>Store\<close> that prints has offset zero.
\<close>

theorem Load_Store_print_offset:
  "(offset \<noteq> 0 \<longrightarrow>
      (\<exists>e. print env indent (Load ty bytes signed' float' offset align ptr) = Inl e)
      \<and> (\<exists>e. print env indent (Store ty bytes float' offset align ptr val) = Inl e))
   \<and> (offset \<noteq> 0 \<and> (bytes = 1 \<or> bytes = 2 \<or> bytes = 4 \<or> bytes = 8) \<longrightarrow>
      print env indent (Load ty bytes signed' float' offset align ptr) = Inl AssertionFailed
      \<and> print env indent (Store ty bytes float' offset align ptr val) = Inl AssertionFailed)
   \<and> (print env indent (Load ty bytes signed' float' offset align ptr) = Inr t \<longrightarrow> offset = 0)
   \<and> (print env indent (Store ty bytes float' offset align ptr val) = Inr t \<longrightarrow> offset = 0)"
  by (auto simp only: print_Load print_Store split: if_splits)

text \<open>C7 at a four-byte access with offset 4, and with offset 0.\<close>

theorem Load_Store_print_offset_witness:
  "(4 :: 32 word) \<noteq> 0
   \<and> print plainEnv 0 (Load i32 4 False False 4 4 (GetLocal i32 (Some ''p''))) = Inl AssertionFailed
   \<and> print plainEnv 0 (Store i32 4 False 4 4 (GetLocal i32 (Some ''p'')) (GetLocal i32 (Some ''v'')))
       = Inl AssertionFailed
   \<and> print plainEnv 0 (Load i32 4 False False 0 4 (GetLocal i32 (Some ''p'')))
       = Inr ''(i32.load align=4\<newline>  (get_local $p)\<newline>)''"
  using Load_Store_print_offset [of 4 plainEnv 0 i32 4 False False 4 "GetLocal i32 (Some ''p'')"
      "GetLocal i32 (Some ''v'')"]
  by (simp add: eval_print)

text \<open>
  C9: \<open>Const::set\<close> stores the literal and sets the node's type to the literal's tag, so
  after \<open>set\<close> the output type of the node is the tag of its value.
\<close>

theorem Const_set_type:
  "Const_value (Const_set this v) = v
   \<and> Const_type (Const_set this v) = Literal_type v
   \<and> Expression_type (Const_expr (Const_set this v))
       = Literal_type (Const_value (Const_set this v))"
  by (simp add: Const_set_def)

text \<open>C9 at a node of type \<open>f64\<close> that is given the \<open>i32\<close> literal 5.\<close>

theorem Const_set_type_witness:
  "Const_set \<lparr>Const_type = f64, Const_value = Literal_default\<rparr> (Literal_i32 5)
     = \<lparr>Const_type = i32, Const_value = Literal_i32 5\<rparr>"
  using Const_set_type [of "\<lparr>Const_type = f64, Const_value = Literal_default\<rparr>" "Literal_i32 5"]
  by (simp add: Const_set_def)

text \<open>
  C10: a default-constructed \<open>Literal\<close> has the tag \<open>none\<close>; printing a literal aborts
  exactly when its tag is \<open>none\<close>, and succeeds exactly when the tag is one of the four
  value types.
\<close>

theorem Literal_none_print:
  "Literal_type Literal_default = none
   \<and> printLiteral env Literal_default = Inl Abort
   \<and> (printLiteral env literal = Inl Abort) = (Literal_type literal = none)
   \<and> (\<exists>t. printLiteral env literal = Inr t) = (Literal_type literal \<noteq> none)"
  by (cases literal) (simp_all add: Literal_default_def printLiteral_def)

text \<open>C10 at the default literal and at an \<open>i64\<close> literal.\<close>

theorem Literal_none_print_witness:
  "printLiteral plainEnv Literal_default = Inl Abort
   \<and> printLiteral plainEnv (Literal_i64 12) = Inr ''(i64.const 12)''"
  using Literal_none_print [of plainEnv "Literal_i64 12"]
  by (simp add: eval_print Literal_default_def)

text \<open>
  C4: an \<open>i32\<close> or \<open>i64\<close> literal prints as the decimal numeral of its signed value: a
  minus sign for a negative value and nothing for the others, then the numeral of the
  magnitude, which is not empty, consists of the digits \<open>0\<close> to \<open>9\<close> only, begins with
  \<open>0\<close> only for zero (which is \<open>0\<close>), and reads back as the magnitude. A
  float literal prints the text of \<open>numToString\<close> after two rewrites: a text beginning
  with \<open>.\<close> gets \<open>0\<close> in front, a text beginning with \<open>-.\<close> is printed as \<open>-0.\<close> and
  the rest, and any other text is printed as it is. So where \<open>numToString\<close> gives \<open>-.5\<close>
  the literal prints \<open>-0.5\<close>, where it gives \<open>.25\<close> the literal prints \<open>0.25\<close>, and the
  \<open>i32\<close> literal \<open>-7\<close> prints \<open>-7\<close>.
\<close>

theorem Literal_print_number:
  "printLiteral env (Literal_i32 x) =
     Inr (''('' @ prepareMinorColor env @ ''i32.const '' @ showInt (sint x)
          @ restoreNormalColor env @ '')'')
   \<and> printLiteral env (Literal_i64 y) =
     Inr (''('' @ prepareMinorColor env @ ''i64.const '' @ showInt (sint y)
          @ restoreNormalColor env @ '')'')
   \<and> showInt i = (if i < 0 then ''-'' else []) @ showNat (nat \<bar>i\<bar>)
   \<and> decimalValue (showNat n) = n
   \<and> showNat n \<noteq> []
   \<and> set (showNat n) \<subseteq> set ''0123456789''
   \<and> (hd (showNat n) = CHR ''0'') = (n = 0)
   \<and> showNat 0 = ''0''
   \<and> printLiteral env (Literal_f32 f) =
     Inr (''('' @ prepareMinorColor env @ ''f32.const '' @ printDouble env (floatToDouble env f)
          @ restoreNormalColor env @ '')'')
   \<and> printLiteral env (Literal_f64 d) =
     Inr (''('' @ prepareMinorColor env @ ''f64.const '' @ printDouble env d
          @ restoreNormalColor env @ '')'')
   \<and> (JSPrinter_numToString env d = ''.'' @ rest \<longrightarrow> printDouble env d = ''0.'' @ rest)
   \<and> (JSPrinter_numToString env d = ''-.'' @ rest \<longrightarrow> printDouble env d = ''-0.'' @ rest)
   \<and> (take 1 (JSPrinter_numToString env d) \<noteq> ''.'' \<and> take 2 (JSPrinter_numToString env d) \<noteq> ''-.''
        \<longrightarrow> printDouble env d = JSPrinter_numToString env d)
   \<and> (JSPrinter_numToString env (floatToDouble env f) = ''-.5'' \<longrightarrow>
        printLiteral env (Literal_f32 f) =
          Inr (''('' @ prepareMinorColor env @ ''f32.const -0.5'' @ restoreNormalColor env @ '')''))
   \<and> (JSPrinter_numToString env d = ''.25'' \<longrightarrow>
        printLiteral env (Literal_f64 d) =
          Inr (''('' @ prepareMinorColor env @ ''f64.const 0.25'' @ restoreNormalColor env @ '')''))
   \<and> printLiteral env (Literal_i32 (- 7)) =
     Inr (''('' @ prepareMinorColor env @ ''i32.const -7'' @ restoreNormalColor env @ '')'')"
proof -
  have i32: "printLiteral env (Literal_i32 x) =
     Inr (''('' @ prepareMinorColor env @ ''i32.const '' @ showInt (sint x)
          @ restoreNormalColor env @ '')'')" for x
    by (simp add: printLiteral_def)
  have i64: "printLiteral env (Literal_i64 y) =
     Inr (''('' @ prepareMinorColor env @ ''i64.const '' @ showInt (sint y)
          @ restoreNormalColor env @ '')'')"
    by (simp add: printLiteral_def)
  have f32: "printLiteral env (Literal_f32 f) =
     Inr (''('' @ prepareMinorColor env @ ''f32.const '' @ printDouble env (floatToDouble env f)
          @ restoreNormalColor env @ '')'')"
    by (simp add: printLiteral_def)
  have f64: "printLiteral env (Literal_f64 d) =
     Inr (''('' @ prepareMinorColor env @ ''f64.const '' @ printDouble env d
          @ restoreNormalColor env @ '')'')"
    by (simp add: printLiteral_def)
  have sh: "showInt i = (if i < 0 then ''-'' else []) @ showNat (nat \<bar>i\<bar>)"
    by (simp add: showInt_def)
  have m5: "JSPrinter_numToString env (floatToDouble env f) = ''-.5'' \<longrightarrow>
        printLiteral env (Literal_f32 f) =
          Inr (''('' @ prepareMinorColor env @ ''f32.const -0.5'' @ restoreNormalColor env @ '')'')"
    using printDouble_minus_dot [of env "floatToDouble env f" "''5''"] by (simp add: f32)
  have p25: "JSPrinter_numToString env d = ''.25'' \<longrightarrow>
        printLiteral env (Literal_f64 d) =
          Inr (''('' @ prepareMinorColor env @ ''f64.const 0.25'' @ restoreNormalColor env @ '')'')"
    using printDouble_dot [of env d "''25''"] by (simp add: f64)
  have m7: "printLiteral env (Literal_i32 (- 7)) =
     Inr (''('' @ prepareMinorColor env @ ''i32.const -7'' @ restoreNormalColor env @ '')'')"
    by (simp add: i32 showInt_def showNat.simps digitChar_def)
  show ?thesis
    using i32 [of x] i64 f32 f64 sh decimalValue_showNat [of n] showNat_nonempty [of n]
      showNat_digits [of n] showNat_leading_zero [of n] showNat_0
      printDouble_dot [of env d rest] printDouble_minus_dot [of env d rest]
      printDouble_other [of env d] m5 p25 m7
    by blast
qed

text \<open>C4 at the float \<open>-0.5\<close>, the double \<open>0.25\<close>, the \<open>i32\<close> literals \<open>-7\<close> and \<open>0\<close>, and an
  \<open>i64\<close> literal of ten digits.\<close>

theorem Literal_print_number_witness:
  "JSPrinter_numToString plainEnv (floatToDouble plainEnv 0xBF000000) = ''-.5''
   \<and> printLiteral plainEnv (Literal_f32 0xBF000000) = Inr ''(f32.const -0.5)''
   \<and> JSPrinter_numToString plainEnv 0x3FD0000000000000 = ''.25''
   \<and> printLiteral plainEnv (Literal_f64 0x3FD0000000000000) = Inr ''(f64.const 0.25)''
   \<and> printLiteral plainEnv (Literal_i32 (- 7)) = Inr ''(i32.const -7)''
   \<and> printLiteral plainEnv (Literal_i32 0) = Inr ''(i32.const 0)''
   \<and> printLiteral plainEnv (Literal_i64 1234567890) = Inr ''(i64.const 1234567890)''"
  using Literal_print_number [of plainEnv _ _ _ _ "0xBF000000" "0x3FD0000000000000" "''25''"]
  by (simp add: eval_print)

text \<open>
  C3: the walker with the default hooks returns the tree it was given and leaves the
  walker's state alone, so the tree prints the same text (or fails the same way) before
  and after; \<open>startWalk\<close> with the default hooks returns the function unchanged.
\<close>

theorem identity_walk_unchanged:
  "walk WasmWalker_default expr s = (expr, s)
   \<and> print env indent (fst (walk WasmWalker_default expr s)) = print env indent expr
   \<and> startWalk WasmWalker_default func s = (func, s)"
  by (simp add: walk_default_aux startWalk_def)

text \<open>C3 at an \<open>if\<close> without else-branch over a comparison and an imported call.\<close>

theorem identity_walk_unchanged_witness:
  "walk WasmWalker_default
     (If_expr none (Compare i32 Eq i32 (GetLocal i32 (Some ''x'')) (Const_expr \<lparr>Const_type = i32, Const_value = Literal_i32 0\<rparr>))
        (CallImport none (Some ''f'') [GetLocal i32 (Some ''x'')]) None) ()
   = (If_expr none (Compare i32 Eq i32 (GetLocal i32 (Some ''x'')) (Const_expr \<lparr>Const_type = i32, Const_value = Literal_i32 0\<rparr>))
        (CallImport none (Some ''f'') [GetLocal i32 (Some ''x'')]) None, ())"
  using identity_walk_unchanged [of "If_expr none (Compare i32 Eq i32 (GetLocal i32 (Some ''x'')) (Const_expr \<lparr>Const_type = i32, Const_value = Literal_i32 0\<rparr>))
        (CallImport none (Some ''f'') [GetLocal i32 (Some ''x'')]) None" "()"]
  by simp

text \<open>
  C6: an absent child is passed through by the walker with the state untouched, so no
  hook runs for it: walking an \<open>If\<close> without false-branch walks the condition and the
  true-branch and then calls \<open>walkIf\<close>, and walking a \<open>Break\<close> walks only the children
  that are present; the recording walker records nothing for the absent child. The
  printer prints the children that are present and nothing for an absent one: an \<open>If\<close>
  without false-branch prints its condition and its true-branch, and prints whenever
  these two print.
\<close>

theorem absent_child_skipped:
  "walkOpt w None s = (None, s)
   \<and> walk w (If_expr ty c t None) s =
       (let (c1, s1) = walk w c s; (t1, s2) = walk w t s1
        in walkIf w (If_expr ty c1 t1 None) s2)
   \<and> walk w (Break ty name None None) s = walkBreak w (Break ty name None None) s
   \<and> walk w (Break ty name (Some c) None) s =
       (let (c1, s1) = walk w c s in walkBreak w (Break ty name (Some c1) None) s1)
   \<and> walk w (Break ty name None (Some v)) s =
       (let (v1, s1) = walk w v s in walkBreak w (Break ty name None (Some v1)) s1)
   \<and> snd (walk WasmWalker_recording (If_expr ty c t None) visited) =
       snd (walk WasmWalker_recording t (snd (walk WasmWalker_recording c visited)))
         @ [(HookIf, If_expr ty c t None)]
   \<and> snd (walk WasmWalker_recording (Break ty name None None) visited) =
       visited @ [(HookBreak, Break ty name None None)]
   \<and> print env indent (If_expr ty c t None) =
       seqOut
         [Inr (printOpening env ''if'' False @ ''\<newline>''),
          printFullLine env (indent + 1) c,
          printFullLine env (indent + 1) t,
          Inr (doIndent indent @ '')'')]
   \<and> (printFullLine env (indent + 1) c = Inr a \<and> printFullLine env (indent + 1) t = Inr b \<longrightarrow>
        print env indent (If_expr ty c t None) =
          Inr (printOpening env ''if'' False @ ''\<newline>'' @ a @ b @ doIndent indent @ '')''))
   \<and> print env indent (Break ty name None None) =
       seqOut
         [Inr (printOpening env ''break '' False),
          printName name,
          Inr (''\<newline>'' @ doIndent indent @ '')'')]
   \<and> print env indent (Break ty (Some str) None None) =
       Inr (printOpening env ''break '' False @ ''$'' @ str @ ''\<newline>'' @ doIndent indent @ '')'')
   \<and> print env indent (Break ty name (Some c) None) =
       seqOut
         [Inr (printOpening env ''break '' False),
          printName name,
          Inr ''\<newline>'',
          printFullLine env (indent + 1) c,
          Inr (doIndent indent @ '')'')]
   \<and> print env indent (Break ty name None (Some v)) =
       seqOut
         [Inr (printOpening env ''break '' False),
          printName name,
          Inr ''\<newline>'',
          printFullLine env (indent + 1) v,
          Inr (doIndent indent @ '')'')]"
proof -
  have w1: "walkOpt w None s = (None, s)" by simp
  have w2: "walk w (If_expr ty c t None) s =
       (let (c1, s1) = walk w c s; (t1, s2) = walk w t s1
        in walkIf w (If_expr ty c1 t1 None) s2)"
    by (simp split: prod.splits)
  have w3: "walk w (Break ty name None None) s = walkBreak w (Break ty name None None) s"
    by simp
  have w4: "walk w (Break ty name (Some c) None) s =
       (let (c1, s1) = walk w c s in walkBreak w (Break ty name (Some c1) None) s1)"
    by (simp split: prod.splits)
  have w5: "walk w (Break ty name None (Some v)) s =
       (let (v1, s1) = walk w v s in walkBreak w (Break ty name None (Some v1)) s1)"
    by (simp split: prod.splits)
  have r1: "snd (walk WasmWalker_recording (If_expr ty c t None) visited) =
       snd (walk WasmWalker_recording t (snd (walk WasmWalker_recording c visited)))
         @ [(HookIf, If_expr ty c t None)]"
    by (simp add: walk_recording_aux dispatchedHook_def del: walk.simps)
  have r2: "snd (walk WasmWalker_recording (Break ty name None None) visited) =
       visited @ [(HookBreak, Break ty name None None)]"
    by (simp add: walk_recording_aux dispatchedHook_def del: walk.simps)
  have p1: "print env indent (If_expr ty c t None) =
       seqOut
         [Inr (printOpening env ''if'' False @ ''\<newline>''),
          printFullLine env (indent + 1) c,
          printFullLine env (indent + 1) t,
          Inr (doIndent indent @ '')'')]"
    by (cases "printFullLine env (indent + 1) c"; cases "printFullLine env (indent + 1) t")
      (simp_all add: indent_roundtrip del: printFullLine.simps)
  have p2: "printFullLine env (indent + 1) c = Inr a \<and> printFullLine env (indent + 1) t = Inr b
      \<longrightarrow> print env indent (If_expr ty c t None) =
          Inr (printOpening env ''if'' False @ ''\<newline>'' @ a @ b @ doIndent indent @ '')'')"
    by (simp add: p1 del: print.simps printFullLine.simps)
  have p3: "print env indent (Break ty name None None) =
       seqOut
         [Inr (printOpening env ''break '' False),
          printName name,
          Inr (''\<newline>'' @ doIndent indent @ '')'')]"
    by (cases "printName name")
      (simp_all add: indent_roundtrip)
  have p4: "print env indent (Break ty (Some str) None None) =
       Inr (printOpening env ''break '' False @ ''$'' @ str @ ''\<newline>'' @ doIndent indent @ '')'')"
    by (simp add: indent_roundtrip printName_def)
  have p5: "print env indent (Break ty name (Some c) None) =
       seqOut
         [Inr (printOpening env ''break '' False),
          printName name,
          Inr ''\<newline>'',
          printFullLine env (indent + 1) c,
          Inr (doIndent indent @ '')'')]"
    by (cases "printName name"; cases "printFullLine env (indent + 1) c")
      (simp_all add: indent_roundtrip del: printFullLine.simps)
  have p6: "print env indent (Break ty name None (Some v)) =
       seqOut
         [Inr (printOpening env ''break '' False),
          printName name,
          Inr ''\<newline>'',
          printFullLine env (indent + 1) v,
          Inr (doIndent indent @ '')'')]"
    by (cases "printName name"; cases "printFullLine env (indent + 1) v")
      (simp_all add: indent_roundtrip del: printFullLine.simps)
  from w1 w2 w3 w4 w5 r1 r2 p1 p2 p3 p4 p5 p6 show ?thesis
    by (intro conjI)
qed

text \<open>C6 at an \<open>if\<close> without else-branch and a \<open>break\<close> without condition and value.\<close>

theorem absent_child_skipped_witness:
  "print plainEnv 0 (If_expr none (GetLocal i32 (Some ''c'')) (Nop none) None)
     = Inr ''(if\<newline>  (get_local $c)\<newline>  (nop)\<newline>)''
   \<and> print plainEnv 0 (Break none (Some ''out'') None None) = Inr ''(break $out\<newline>)''
   \<and> walk WasmWalker_recording (If_expr none (GetLocal i32 (Some ''c'')) (Nop none) None) []
     = (If_expr none (GetLocal i32 (Some ''c'')) (Nop none) None,
        [(HookGetLocal, GetLocal i32 (Some ''c'')), (HookNop, Nop none),
         (HookIf, If_expr none (GetLocal i32 (Some ''c'')) (Nop none) None)])"
  using absent_child_skipped [of "WasmWalker_recording" "[]" none "GetLocal i32 (Some ''c'')"
      "Nop none" "Some ''out''" _ "[]" plainEnv 0 "''  (get_local $c)\<newline>''"
      "''  (nop)\<newline>''" "''out''"]
  by (simp add: eval_print WasmWalker_recording_def recordHook_def)

text \<open>
  C2 says that the walker invokes every node's own per-kind hook after the node's
  children have been walked. At a \<open>CallImport\<close> with one operand the operand is walked
  first, as C2 says, but the node is then handed to \<open>walkCall\<close>, not to its own hook
  \<open>walkCallImport\<close>: the test \<open>dynamic_cast<Call*>\<close> comes first in \<open>walk\<close> and
  succeeds on the derived class.
\<close>

theorem walk_CallImport_dispatch:
  "walk WasmWalker_recording (CallImport none (Some ''f'') [GetLocal i32 (Some ''x'')]) []
   = (CallImport none (Some ''f'') [GetLocal i32 (Some ''x'')],
      [(HookGetLocal, GetLocal i32 (Some ''x'')),
       (HookCall, CallImport none (Some ''f'') [GetLocal i32 (Some ''x'')])])
   \<and> spec_ownHook (CallImport none (Some ''f'') [GetLocal i32 (Some ''x'')]) = HookCallImport"
  by (simp add: WasmWalker_recording_def recordHook_def)

subsection \<open>Further properties\<close>

text \<open>
  The recording walker returns the tree unchanged and records the nodes in the
  post-order of the specification's table, every child before its parent. Each node is
  recorded under its own hook, except a \<open>CallImport\<close>, which is recorded under
  \<open>walkCall\<close>.
\<close>

theorem walk_recording_postorder:
  "walk WasmWalker_recording expr visited =
     (expr, visited @ map (\<lambda>n. (dispatchedHook n, n)) (spec_postorder expr))"
  by (simp add: walk_recording_aux)

text \<open>
  The end-to-end example of the specification: \<open>Binary(Add, GetLocal(x), Const(i32, 1))\<close>
  of type \<open>i32\<close> prints as an \<open>i32.add\<close> form with two indented child lines.
\<close>

theorem print_Binary_end_to_end:
  "print plainEnv 0
     (Binary i32 Add (GetLocal i32 (Some ''x''))
        (Const_expr \<lparr>Const_type = i32, Const_value = Literal_i32 1\<rparr>))
   = Inr ''(i32.add\<newline>  (get_local $x)\<newline>  (i32.const 1)\<newline>)''"
  by (simp add: eval_print)

text \<open>
  The rewrite scenario of the specification: replacing every \<open>Const\<close> by a zero of its
  type turns \<open>Binary(Add, Const(i32, 5), Const(i32, 3))\<close> into the \<open>i32.add\<close> of two
  \<open>i32.const 0\<close>.
\<close>

theorem walk_zeroConst_scenario:
  "print plainEnv 0
     (fst (walk WasmWalker_zeroConst
        (Binary i32 Add (Const_expr \<lparr>Const_type = i32, Const_value = Literal_i32 5\<rparr>)
           (Const_expr \<lparr>Const_type = i32, Const_value = Literal_i32 3\<rparr>)) ()))
   = Inr ''(i32.add\<newline>  (i32.const 0)\<newline>  (i32.const 0)\<newline>)''"
  by (simp add: eval_print WasmWalker_zeroConst_def WasmWalker_default_def zeroConstHook_def
      zeroLiteral_def Const_set_def)

end
